theory Spec2Isabelle
  imports Complex_Main
begin

section \<open>SEAP: the loan evaluation pipeline\<close>

text \<open>
  The repository holds two copies of each service.

  \<^item> The validation service: \<^verbatim>\<open>src/lib/validation-service.ts\<close> (plain names below) and
    the copy at lines 1--492 of \<^verbatim>\<open>src/unnamed/part_001\<close> (names ending in \<open>_p1\<close>).
  \<^item> The bureau service \<^verbatim>\<open>bcra-service\<close>: the copy at lines 493--776 of
    \<^verbatim>\<open>src/unnamed/part_001\<close> (names ending in \<open>_a\<close>) and the copy at lines 777--1137
    (names ending in \<open>_b\<close>).

  Both validation services import \<^verbatim>\<open>./bcra-service\<close>, so they are modelled relative to
  a record of the four bureau functions they call, which either copy instantiates.

  Console logging and the artificial delays (\<^verbatim>\<open>setTimeout\<close> of 1500 ms and 800 ms in the
  delinquency and bank stages) have no effect on any returned value and are left out.
  The clock (\<^verbatim>\<open>new Date().toISOString()\<close>, read once per call), the network, the
  process environment and \<^verbatim>\<open>Math.random()\<close> are explicit arguments.
\<close>

subsection \<open>JavaScript numbers and strings\<close>

text \<open>
  A \<^verbatim>\<open>number\<close> is a rational or \<open>NaN\<close>. The only source of \<open>NaN\<close> in the code is
  \<^verbatim>\<open>parseInt\<close> on text that does not start with a digit. Rounding of doubles is not
  modelled: every value is exact. The infinities are not modelled: the source divides
  only by the constant 233280 and by a count it has tested to be positive.
\<close>

datatype number = NaN | Num rat

fun num_add :: "number \<Rightarrow> number \<Rightarrow> number" where
  "num_add (Num a) (Num b) = Num (a + b)"
| "num_add _ _ = NaN"

fun num_sub :: "number \<Rightarrow> number \<Rightarrow> number" where
  "num_sub (Num a) (Num b) = Num (a - b)"
| "num_sub _ _ = NaN"

fun num_mul :: "number \<Rightarrow> number \<Rightarrow> number" where
  "num_mul (Num a) (Num b) = Num (a * b)"
| "num_mul _ _ = NaN"

fun num_div :: "number \<Rightarrow> number \<Rightarrow> number" where
  "num_div (Num a) (Num b) = (if b = 0 then NaN else Num (a / b))"
| "num_div _ _ = NaN"

text \<open>The remainder \<^verbatim>\<open>a % b\<close> truncates the quotient towards zero.\<close>

fun num_rem :: "number \<Rightarrow> number \<Rightarrow> number" where
  "num_rem (Num a) (Num b) =
     (if b = 0 then NaN
      else Num (a - b * of_int (if 0 \<le> a / b then \<lfloor>a / b\<rfloor> else \<lceil>a / b\<rceil>)))"
| "num_rem _ _ = NaN"

fun num_floor :: "number \<Rightarrow> number" where
  "num_floor (Num a) = Num (of_int \<lfloor>a\<rfloor>)"
| "num_floor NaN = NaN"

text \<open>Every comparison with \<open>NaN\<close> is false, \<^verbatim>\<open>===\<close> included.\<close>

fun num_lt :: "number \<Rightarrow> number \<Rightarrow> bool" where
  "num_lt (Num a) (Num b) = (a < b)"
| "num_lt _ _ = False"

fun num_gt :: "number \<Rightarrow> number \<Rightarrow> bool" where
  "num_gt (Num a) (Num b) = (a > b)"
| "num_gt _ _ = False"

fun num_ge :: "number \<Rightarrow> number \<Rightarrow> bool" where
  "num_ge (Num a) (Num b) = (a \<ge> b)"
| "num_ge _ _ = False"

fun num_eq :: "number \<Rightarrow> number \<Rightarrow> bool" where
  "num_eq (Num a) (Num b) = (a = b)"
| "num_eq _ _ = False"

text \<open>
  A string is the list of its code units; the texts of this program stay below 256, so
  a code unit is a \<open>char\<close> (\<open>CHR 0xE1\<close> is the letter a with an acute accent).
\<close>

definition isDigit :: "char \<Rightarrow> bool" where
  "isDigit c \<longleftrightarrow> (48::nat) \<le> of_char c \<and> of_char c \<le> (57::nat)"

definition digitVal :: "char \<Rightarrow> nat" where
  "digitVal c = of_char c - 48"

definition digitChar :: "nat \<Rightarrow> char" where
  "digitChar n = ''0123456789'' ! n"

text \<open>The white space of \<^verbatim>\<open>\s\<close>, \<^verbatim>\<open>trim\<close> and \<^verbatim>\<open>parseInt\<close>, below code unit 256.\<close>

definition isSpace :: "char \<Rightarrow> bool" where
  "isSpace c \<longleftrightarrow> (of_char c :: nat) \<in> {9, 10, 11, 12, 13, 32, 160}"

function show_nat :: "nat \<Rightarrow> string" where
  "show_nat n =
     (if n < 10 then [digitChar n] else show_nat (n div 10) @ [digitChar (n mod 10)])"
  by pat_completeness auto
termination
  by (relation "measure id") auto

text \<open>
  \<^verbatim>\<open>Number.prototype.toString\<close>, for the whole numbers and \<open>NaN\<close>; the program applies
  it to a check digit only.
\<close>

fun numToString :: "number \<Rightarrow> string" where
  "numToString NaN = ''NaN''"
| "numToString (Num r) =
     (if r < 0 then CHR ''-'' # show_nat (nat (- \<lfloor>r\<rfloor>)) else show_nat (nat \<lfloor>r\<rfloor>))"

text \<open>
  \<^verbatim>\<open>parseInt(s)\<close> without a radix: leading white space is skipped, then an optional
  sign, then \<^verbatim>\<open>0x\<close> selects base 16, then the longest run of digits of the base is
  read; no digit gives \<open>NaN\<close>.
\<close>

definition radixDigit :: "nat \<Rightarrow> char \<Rightarrow> nat option" where
  "radixDigit R c =
     (let k = (of_char c :: nat);
          v = (if 48 \<le> k \<and> k \<le> 57 then Some (k - 48)
               else if 97 \<le> k \<and> k \<le> 102 then Some (k - 87)
               else if 65 \<le> k \<and> k \<le> 70 then Some (k - 55)
               else None)
      in case v of None \<Rightarrow> None | Some d \<Rightarrow> if d < R then Some d else None)"

definition digitsValue :: "nat \<Rightarrow> string \<Rightarrow> nat" where
  "digitsValue R ds = foldl (\<lambda>acc c. acc * R + (case radixDigit R c of Some d \<Rightarrow> d | None \<Rightarrow> 0)) 0 ds"

definition parseInt :: "string \<Rightarrow> number" where
  "parseInt s =
     (let s1 = dropWhile isSpace s;
          neg = (take 1 s1 = ''-'');
          s2 = (if take 1 s1 = ''-'' \<or> take 1 s1 = ''+'' then drop 1 s1 else s1);
          hex = (take 2 s2 = ''0x'' \<or> take 2 s2 = ''0X'');
          R = (if hex then 16 else 10);
          s3 = (if hex then drop 2 s2 else s2);
          ds = takeWhile (\<lambda>c. radixDigit R c \<noteq> None) s3
      in if ds = [] then NaN
         else Num ((if neg then - 1 else 1) * of_nat (digitsValue R ds)))"

text \<open>\<^verbatim>\<open>parseInt(s[i])\<close>: an index past the end reads \<^verbatim>\<open>undefined\<close>, which parses to \<open>NaN\<close>.\<close>

definition parseIntAt :: "string \<Rightarrow> nat \<Rightarrow> number" where
  "parseIntAt s i = (if i < length s then parseInt [s ! i] else NaN)"

subsection \<open>The identifier service (both copies of bcra-service)\<close>

definition multipliers :: "nat list" where
  "multipliers = [5, 4, 3, 2, 7, 6, 5, 4, 3, 2]"

text \<open>The loop \<^verbatim>\<open>for (i = 0; i < 10; i++) sum += parseInt(cuit[i]) * multipliers[i]\<close>.\<close>

definition weightedSum :: "string \<Rightarrow> number" where
  "weightedSum s =
     foldl (\<lambda>sum i. num_add sum (num_mul (parseIntAt s i) (Num (of_nat (multipliers ! i)))))
       (Num 0) [0..<10]"

text \<open>\<^verbatim>\<open>remainder < 2 ? remainder : 11 - remainder\<close>\<close>

definition checkDigit :: "number \<Rightarrow> number" where
  "checkDigit s =
     (let remainder = num_rem s (Num 11)
      in if num_lt remainder (Num 2) then remainder else num_sub (Num 11) remainder)"

text \<open>\<^verbatim>\<open>validateCuitChecksum\<close> is the same in both copies.\<close>

definition validateCuitChecksum :: "string \<Rightarrow> bool" where
  "validateCuitChecksum s = num_eq (checkDigit (weightedSum s)) (parseIntAt s 10)"

text \<open>
  Copy a: hyphens and white space are removed, the rest must be 7 to 11 digits, and 7
  or 8 digits are accepted as they are.
\<close>

definition validateCuit_a :: "string \<Rightarrow> bool" where
  "validateCuit_a s =
     (let cleanCuit = filter (\<lambda>c. c \<noteq> CHR ''-'' \<and> \<not> isSpace c) s
      in if \<not> (list_all isDigit cleanCuit \<and> 7 \<le> length cleanCuit \<and> length cleanCuit \<le> 11)
         then False
         else if length cleanCuit \<le> 8 then True
         else validateCuitChecksum cleanCuit)"

text \<open>Copy b: exactly 11 characters, all digits, and the checksum.\<close>

definition validateCuit_b :: "string \<Rightarrow> bool" where
  "validateCuit_b s =
     (if s = [] \<or> length s \<noteq> 11 then False
      else if \<not> list_all isDigit s then False
      else validateCuitChecksum s)"

text \<open>
  \<^verbatim>\<open>dniToCuit\<close> raises; the result is \<open>Inl\<close> of the error's message or \<open>Inr\<close> of the
  identifier. Copy a keeps the digits only, wants 7 or 8 of them and pads to 8.
\<close>

definition dniToCuit_a :: "string \<Rightarrow> string + string" where
  "dniToCuit_a s =
     (let cleanDni = filter isDigit s
      in if length cleanDni < 7 \<or> length cleanDni > 8 then Inl ''DNI_INVALID_LENGTH''
         else
           (let baseCuit = ''20'' @ replicate (8 - length cleanDni) CHR ''0'' @ cleanDni
            in Inr (baseCuit @ numToString (checkDigit (weightedSum baseCuit)))))"

text \<open>
  Copy b wants exactly 8 characters and does not look at what they are. Its message
  is \<^verbatim>\<open>DNI inv\<close>, the letter a with an acute accent, \<^verbatim>\<open>lido\<close>.
\<close>

definition dni_invalido :: string where
  "dni_invalido = ''DNI inv'' @ [CHR 0xE1] @ ''lido''"

definition dniToCuit_b :: "string \<Rightarrow> string + string" where
  "dniToCuit_b s =
     (if length s \<noteq> 8 then Inl dni_invalido
      else
        (let baseCuit = ''20'' @ s
         in Inr (baseCuit @ numToString (checkDigit (weightedSum baseCuit)))))"

subsection \<open>The bureau client (both copies of bcra-service)\<close>

text \<open>The optional field \<^verbatim>\<open>diasAtraso\<close> of a debt is never written nor read.\<close>

record BCRADeuda =
  entidad :: string
  situacion :: number
  monto :: number
  fechaActualizacion :: string

record Resumen =
  situacion1 :: number
  situacion2 :: number
  situacion3 :: number
  situacion4 :: number
  situacion5 :: number
  totalEntidades :: number
  montoTotal :: number

record BCRAResponse =
  cuit :: string
  fechaConsulta :: string
  deudas :: "BCRADeuda list"
  resumen :: Resumen
  inhabilitado :: bool
  observaciones :: "string list option"

text \<open>
  The body of a successful reply, as far as \<^verbatim>\<open>processResponse\<close> reads it: an object
  whose fields \<^verbatim>\<open>deudas\<close> and \<^verbatim>\<open>observaciones\<close> may be missing.
\<close>

record ApiResponse =
  api_deudas :: "BCRADeuda list option"
  api_observaciones :: "string list option"

text \<open>
  What one \<^verbatim>\<open>fetch\<close> does: the timer aborts it, it rejects with an \<^verbatim>\<open>Error\<close> of some
  message, it rejects with a value that is no \<^verbatim>\<open>Error\<close>, or it answers with a status
  and a body whose parsing gives an object or raises an \<^verbatim>\<open>Error\<close>.
\<close>

datatype fetched =
  FetchAbort
| FetchError string
| FetchThrown
| FetchResponse nat "string + ApiResponse"

definition makeRequest :: "fetched \<Rightarrow> string + ApiResponse" where
  "makeRequest f =
     (case f of
        FetchAbort \<Rightarrow> Inl ''TIMEOUT''
      | FetchError m \<Rightarrow> Inl m
      | FetchThrown \<Rightarrow> Inl ''UNKNOWN_ERROR''
      | FetchResponse status body \<Rightarrow>
          if \<not> (200 \<le> status \<and> status \<le> 299) then Inl (''HTTP_ERROR_'' @ show_nat status)
          else body)"

text \<open>\<^verbatim>\<open>deuda.monto || 0\<close>\<close>

fun orZero :: "number \<Rightarrow> number" where
  "orZero NaN = Num 0"
| "orZero (Num x) = Num x"

definition contarDeuda :: "Resumen \<Rightarrow> BCRADeuda \<Rightarrow> Resumen" where
  "contarDeuda r d =
     (let r1 =
        (if num_eq (situacion d) (Num 1) then r\<lparr>situacion1 := num_add (situacion1 r) (Num 1)\<rparr>
         else if num_eq (situacion d) (Num 2) then r\<lparr>situacion2 := num_add (situacion2 r) (Num 1)\<rparr>
         else if num_eq (situacion d) (Num 3) then r\<lparr>situacion3 := num_add (situacion3 r) (Num 1)\<rparr>
         else if num_eq (situacion d) (Num 4) then r\<lparr>situacion4 := num_add (situacion4 r) (Num 1)\<rparr>
         else if num_eq (situacion d) (Num 5) then r\<lparr>situacion5 := num_add (situacion5 r) (Num 1)\<rparr>
         else r)
      in r1\<lparr>montoTotal := num_add (montoTotal r1) (orZero (monto d))\<rparr>)"

definition processResponse :: "ApiResponse \<Rightarrow> string \<Rightarrow> string \<Rightarrow> BCRAResponse" where
  "processResponse apiResponse c now =
     (let ds = (case api_deudas apiResponse of Some l \<Rightarrow> l | None \<Rightarrow> []);
          r0 = \<lparr>situacion1 = Num 0, situacion2 = Num 0, situacion3 = Num 0, situacion4 = Num 0,
                situacion5 = Num 0, totalEntidades = Num (of_nat (length ds)), montoTotal = Num 0\<rparr>;
          r = foldl contarDeuda r0 ds
      in \<lparr>cuit = c, fechaConsulta = now, deudas = ds, resumen = r,
          inhabilitado = num_gt (situacion5 r) (Num 0),
          observaciones =
            Some (case api_observaciones apiResponse of Some l \<Rightarrow> l | None \<Rightarrow> [])\<rparr>)"

definition MAX_RETRIES :: nat where
  "MAX_RETRIES = 3"

text \<open>
  What the client does to the outside, in order: the HTTP request of an attempt, and
  the wait (in milliseconds) before the next attempt.
\<close>

datatype event = Request nat | Wait nat

text \<open>
  The loop \<^verbatim>\<open>for (attempt = 1; attempt <= MAX_RETRIES; attempt++)\<close> of
  \<^verbatim>\<open>consultarDeudas\<close>, and the \<^verbatim>\<open>throw lastError || new Error("MAX_RETRIES_EXCEEDED")\<close>
  after it; identical in both copies. \<open>net attempt\<close> is what the fetch of that attempt
  does.
\<close>

function retryLoop ::
  "(nat \<Rightarrow> fetched) \<Rightarrow> string \<Rightarrow> string \<Rightarrow> nat \<Rightarrow> string option \<Rightarrow> event list \<Rightarrow>
     (string + BCRAResponse) \<times> event list" where
  "retryLoop net c now attempt lastError tr =
     (if attempt \<le> MAX_RETRIES then
        (case makeRequest (net attempt) of
           Inr response \<Rightarrow> (Inr (processResponse response c now), tr @ [Request attempt])
         | Inl e \<Rightarrow>
             if attempt < MAX_RETRIES
             then retryLoop net c now (attempt + 1) (Some e)
                    (tr @ [Request attempt, Wait (2 ^ attempt * 1000)])
             else retryLoop net c now (attempt + 1) (Some e) (tr @ [Request attempt]))
      else
        (Inl (case lastError of Some e \<Rightarrow> e | None \<Rightarrow> ''MAX_RETRIES_EXCEEDED''), tr))"
  by pat_completeness auto
termination
  by (relation "measure (\<lambda>(net, c, now, attempt, lastError, tr). Suc MAX_RETRIES - attempt)") auto

declare retryLoop.simps [simp del]

text \<open>The favourable simulated reply, the same in both copies.\<close>

definition respuestaFavorable :: "string \<Rightarrow> string \<Rightarrow> BCRAResponse" where
  "respuestaFavorable c now =
     \<lparr>cuit = c, fechaConsulta = now,
      deudas =
        [\<lparr>entidad = ''Banco Naci'' @ [CHR 0xF3] @ ''n'', situacion = Num 1, monto = Num 0,
          fechaActualizacion = now\<rparr>,
         \<lparr>entidad = ''Banco Galicia'', situacion = Num 2, monto = Num 15000,
          fechaActualizacion = now\<rparr>],
      resumen =
        \<lparr>situacion1 = Num 1, situacion2 = Num 1, situacion3 = Num 0, situacion4 = Num 0,
         situacion5 = Num 0, totalEntidades = Num 2, montoTotal = Num 15000\<rparr>,
      inhabilitado = False,
      observaciones = None\<rparr>"

text \<open>The length that \<^verbatim>\<open>Array.from({ length: n }, ...)\<close> gives: \<open>NaN\<close> counts as 0.\<close>

fun toLength :: "number \<Rightarrow> nat" where
  "toLength NaN = 0"
| "toLength (Num r) = nat \<lfloor>r\<rfloor>"

text \<open>
  Copy a simulates with \<^verbatim>\<open>Math.random()\<close>. \<open>rnd k\<close> is the value of the k-th call
  (from 0) made during one simulation; the calls are made in the order of the source:
  the branch, the number of entities, then for each debt its tier (only for the
  problematic ones) and its amount, then tier 5, the total amount and the
  disqualification flag.
\<close>

definition mockDeuda_a ::
  "(nat \<Rightarrow> rat) \<Rightarrow> nat \<Rightarrow> string \<Rightarrow> nat \<times> BCRADeuda list \<Rightarrow> nat \<Rightarrow> nat \<times> BCRADeuda list" where
  "mockDeuda_a rnd problematicas now st i =
     (let k = fst st;
          sit = (if i < problematicas then (if rnd k < 1 / 2 then 3 else 4) else 1);
          k1 = (if i < problematicas then k + 1 else k)
      in (k1 + 1,
          snd st @
            [\<lparr>entidad = ''Entidad '' @ show_nat (i + 1), situacion = Num sit,
              monto = Num (of_int \<lfloor>rnd k1 * 100000\<rfloor>), fechaActualizacion = now\<rparr>]))"

definition generateMockResponse_a :: "(nat \<Rightarrow> rat) \<Rightarrow> string \<Rightarrow> string \<Rightarrow> BCRAResponse" where
  "generateMockResponse_a rnd c now =
     (if rnd 0 < 7 / 10 then respuestaFavorable c now
      else
        (let total = nat (\<lfloor>rnd 1 * 4\<rfloor> + 2);
             problematicas = nat \<lfloor>rat_of_nat total * (6 / 10)\<rfloor>;
             st = foldl (mockDeuda_a rnd problematicas now) (2, []) [0..<total];
             k = fst st
         in \<lparr>cuit = c, fechaConsulta = now, deudas = snd st,
             resumen =
               \<lparr>situacion1 = Num (rat_of_nat (total - problematicas)),
                situacion2 = Num 0,
                situacion3 = Num (of_int \<lfloor>rat_of_nat problematicas * (7 / 10)\<rfloor>),
                situacion4 = Num (of_int \<lfloor>rat_of_nat problematicas * (3 / 10)\<rfloor>),
                situacion5 = Num (if rnd k < 1 / 10 then 1 else 0),
                totalEntidades = Num (rat_of_nat total),
                montoTotal = Num (of_int \<lfloor>rnd (k + 1) * 500000\<rfloor>)\<rparr>,
             inhabilitado = (rnd (k + 2) < 1 / 10),
             observaciones = None\<rparr>))"

text \<open>
  Copy b derives everything from \<^verbatim>\<open>parseInt(cuit.slice(-4))\<close>:
  \<^verbatim>\<open>random = (seed * 9301 + 49297) % 233280 / 233280\<close>.
\<close>

definition slice4 :: "string \<Rightarrow> string" where
  "slice4 s = drop (length s - 4) s"

definition seededRandom :: "string \<Rightarrow> number" where
  "seededRandom c =
     num_div (num_rem (num_add (num_mul (parseInt (slice4 c)) (Num 9301)) (Num 49297)) (Num 233280))
       (Num 233280)"

text \<open>The function that \<^verbatim>\<open>Array.from\<close> applies to each index \<open>i\<close>.\<close>

definition mockDeuda_b :: "number \<Rightarrow> number \<Rightarrow> string \<Rightarrow> nat \<Rightarrow> BCRADeuda" where
  "mockDeuda_b random problematicas now i =
     \<lparr>entidad = ''Entidad '' @ show_nat (i + 1),
      situacion =
        (if num_lt (Num (rat_of_nat i)) problematicas
         then (if num_lt random (Num (1 / 2)) then Num 3 else Num 4)
         else Num 1),
      monto = num_floor (num_mul random (Num 100000)),
      fechaActualizacion = now\<rparr>"

definition generateMockResponse_b :: "string \<Rightarrow> string \<Rightarrow> BCRAResponse" where
  "generateMockResponse_b c now =
     (let random = seededRandom c
      in if num_lt random (Num (7 / 10)) then respuestaFavorable c now
         else
           (let total = num_add (num_floor (num_mul random (Num 4))) (Num 2);
                problematicas = num_floor (num_mul total (Num (6 / 10)))
            in \<lparr>cuit = c, fechaConsulta = now,
                deudas = map (mockDeuda_b random problematicas now) [0..<toLength total],
                resumen =
                  \<lparr>situacion1 = num_sub total problematicas,
                   situacion2 = Num 0,
                   situacion3 = num_floor (num_mul problematicas (Num (7 / 10))),
                   situacion4 = num_floor (num_mul problematicas (Num (3 / 10))),
                   situacion5 = (if num_lt random (Num (1 / 10)) then Num 1 else Num 0),
                   totalEntidades = total,
                   montoTotal = num_floor (num_mul random (Num 500000))\<rparr>,
                inhabilitado = num_lt random (Num (1 / 10)),
                observaciones = None\<rparr>))"

text \<open>
  \<^verbatim>\<open>getAuthToken\<close>. Copy a returns \<^verbatim>\<open>null\<close> always. Copy b reads
  \<^verbatim>\<open>process.env.NEXT_PUBLIC_BCRA_TOKEN || process.env.BCRA_TOKEN\<close>; an empty text counts
  as no token.
\<close>

definition getAuthToken_a :: "string option" where
  "getAuthToken_a = None"

record Env =
  NEXT_PUBLIC_BCRA_TOKEN :: "string option"
  BCRA_TOKEN :: "string option"

fun truthy :: "string option \<Rightarrow> bool" where
  "truthy None = False"
| "truthy (Some s) = (s \<noteq> [])"

definition getAuthToken_b :: "Env \<Rightarrow> string option" where
  "getAuthToken_b env =
     (let token = (if truthy (NEXT_PUBLIC_BCRA_TOKEN env) then NEXT_PUBLIC_BCRA_TOKEN env
                   else BCRA_TOKEN env)
      in if \<not> truthy token then None else token)"

text \<open>
  \<^verbatim>\<open>consultarDeudas\<close>: the result (\<open>Inl\<close> is the message of the error it raises) and
  what it did to the outside. Without a token copy a raises and copy b simulates.
\<close>

definition consultarDeudas_a ::
  "(nat \<Rightarrow> fetched) \<Rightarrow> string \<Rightarrow> string \<Rightarrow> (string + BCRAResponse) \<times> event list" where
  "consultarDeudas_a net c now =
     (if \<not> truthy getAuthToken_a then (Inl ''TOKEN_NOT_CONFIGURED'', [])
      else retryLoop net c now 1 None [])"

definition consultarDeudas_b ::
  "Env \<Rightarrow> (nat \<Rightarrow> fetched) \<Rightarrow> string \<Rightarrow> string \<Rightarrow> (string + BCRAResponse) \<times> event list" where
  "consultarDeudas_b env net c now =
     (if \<not> truthy (getAuthToken_b env) then (Inr (generateMockResponse_b c now), [])
      else retryLoop net c now 1 None [])"

text \<open>The four functions of \<^verbatim>\<open>BCRAService\<close> that the validation service calls.\<close>

record BCRAService =
  svc_validateCuit :: "string \<Rightarrow> bool"
  svc_dniToCuit :: "string \<Rightarrow> string + string"
  svc_consultarDeudas :: "string \<Rightarrow> string + BCRAResponse"
  svc_generateMockResponse :: "string \<Rightarrow> BCRAResponse"

definition BCRAService_a :: "(nat \<Rightarrow> rat) \<Rightarrow> (nat \<Rightarrow> fetched) \<Rightarrow> string \<Rightarrow> BCRAService" where
  "BCRAService_a rnd net now =
     \<lparr>svc_validateCuit = validateCuit_a,
      svc_dniToCuit = dniToCuit_a,
      svc_consultarDeudas = (\<lambda>c. fst (consultarDeudas_a net c now)),
      svc_generateMockResponse = (\<lambda>c. generateMockResponse_a rnd c now)\<rparr>"

definition BCRAService_b :: "Env \<Rightarrow> (nat \<Rightarrow> fetched) \<Rightarrow> string \<Rightarrow> BCRAService" where
  "BCRAService_b env net now =
     \<lparr>svc_validateCuit = validateCuit_b,
      svc_dniToCuit = dniToCuit_b,
      svc_consultarDeudas = (\<lambda>c. fst (consultarDeudas_b env net c now)),
      svc_generateMockResponse = (\<lambda>c. generateMockResponse_b c now)\<rparr>"

subsection \<open>Data of the validation service\<close>

datatype TipoEmpleado = Publico | Privado | Jubilado | SinTipo

text \<open>
  \<^verbatim>\<open>ClienteData\<close>; \<open>SinTipo\<close> is the empty text of the union type. \<open>sueldoNeto\<close> is a
  finite number. \<open>numeroCuenta\<close> is optional.
\<close>

record ClienteData =
  nombre :: string
  apellido :: string
  dni :: string
  sueldoNeto :: rat
  tipoEmpleado :: TipoEmpleado
  provincia :: string
  bancoPagador :: string
  numeroCuenta :: "string option"

record Banco =
  b_id :: string
  b_nombre :: string
  b_restricciones :: bool
  b_situacion :: nat
  b_requiereCuenta :: bool

record Moroso =
  m_dni :: string
  tieneCredito :: bool
  montoDeuda :: rat

text \<open>
  \<^verbatim>\<open>details?: any\<close>: an object with the keys that the two services write, each present
  or not.
\<close>

record Details =
  det_sueldoMinimo :: "rat option"
  det_sueldoActual :: "rat option"
  det_montoDeuda :: "rat option"
  det_error :: "string option"
  det_requiresManualReview :: "bool option"
  det_statusCode :: "string option"
  det_bcraData :: "BCRAResponse option"
  det_situacion5Count :: "number option"
  det_porcentajeProblematicas :: "number option"
  det_totalProblematicas :: "number option"
  det_totalEntidades :: "number option"
  det_montoTotal :: "number option"
  det_banco :: "Banco option"
  det_requiredSalary :: "rat option"
  det_accountBlocked :: "bool option"

definition emptyDetails :: Details where
  "emptyDetails =
     \<lparr>det_sueldoMinimo = None, det_sueldoActual = None, det_montoDeuda = None,
      det_error = None, det_requiresManualReview = None, det_statusCode = None,
      det_bcraData = None, det_situacion5Count = None, det_porcentajeProblematicas = None,
      det_totalProblematicas = None, det_totalEntidades = None, det_montoTotal = None,
      det_banco = None, det_requiredSalary = None, det_accountBlocked = None\<rparr>"

text \<open>
  A message is a template literal: fixed text, and \<^verbatim>\<open>x.toFixed(1)\<close> of a number, which
  is kept as it is (the decimal rendering of a double is not modelled).
\<close>

datatype piece = Text string | Fixed1 number

type_synonym msg = "piece list"

text \<open>
  \<^verbatim>\<open>ValidationResult\<close>, with the two optional fields that \<^verbatim>\<open>validateBCRA\<close> of
  \<^verbatim>\<open>src/lib/validation-service.ts\<close> adds to it.
\<close>

record ValidationResult =
  success :: bool
  message :: msg
  details :: "Details option"
  vr_situacion5 :: "bool option"
  vr_porcentajeProblematicas :: "number option"

definition result :: "bool \<Rightarrow> msg \<Rightarrow> Details option \<Rightarrow> ValidationResult" where
  "result ok m d =
     \<lparr>success = ok, message = m, details = d, vr_situacion5 = None,
      vr_porcentajeProblematicas = None\<rparr>"

datatype Resultado = Aprobado | Rechazado | Pendiente

record Detalles =
  protecap :: ValidationResult
  bcra :: ValidationResult
  banco :: ValidationResult
  montoCalculado :: "rat option"

record EvaluationResult =
  resultado :: Resultado
  montoMaximo :: "rat option"
  motivoRechazo :: "msg option"
  detalles :: Detalles

text \<open>The accented letters of the messages.\<close>

definition a' :: string where "a' = [CHR 0xE1]"
definition e' :: string where "e' = [CHR 0xE9]"
definition i' :: string where "i' = [CHR 0xED]"
definition o' :: string where "o' = [CHR 0xF3]"
definition u' :: string where "u' = [CHR 0xFA]"

definition noEvaluado :: ValidationResult where
  "noEvaluado = result False [Text ''No evaluado''] None"

definition clientesMorosos :: "Moroso list" where
  "clientesMorosos =
     [\<lparr>m_dni = ''12345678'', tieneCredito = True, montoDeuda = 50000\<rparr>,
      \<lparr>m_dni = ''87654321'', tieneCredito = False, montoDeuda = 0\<rparr>,
      \<lparr>m_dni = ''11223344'', tieneCredito = True, montoDeuda = 25000\<rparr>]"

definition mkBanco :: "string \<Rightarrow> string \<Rightarrow> bool \<Rightarrow> nat \<Rightarrow> bool \<Rightarrow> Banco" where
  "mkBanco i n r s q =
     \<lparr>b_id = i, b_nombre = n, b_restricciones = r, b_situacion = s, b_requiereCuenta = q\<rparr>"

text \<open>The table of \<^verbatim>\<open>src/lib/validation-service.ts\<close>.\<close>

definition bancosHabilitados :: "Banco list" where
  "bancosHabilitados =
     [mkBanco ''nacion'' (''Banco Naci'' @ o' @ ''n'') False 1 False,
      mkBanco ''macro'' ''Banco Macro'' True 2 True,
      mkBanco ''santander'' ''Banco Santander'' False 2 False,
      mkBanco ''galicia'' ''Banco Galicia'' False 2 False,
      mkBanco ''bbva'' ''BBVA'' True 3 False,
      mkBanco ''icbc'' ''ICBC'' False 1 False,
      mkBanco ''supervielle'' ''Banco Supervielle'' False 2 False]"

text \<open>The table of the other copy.\<close>

definition bancosData :: "Banco list" where
  "bancosData =
     [mkBanco ''nacion'' (''Banco Naci'' @ o' @ ''n'') False 1 False,
      mkBanco ''macro'' ''Banco Macro'' True 2 True,
      mkBanco ''santander'' ''Banco Santander'' False 1 False,
      mkBanco ''galicia'' ''Banco Galicia'' False 2 False,
      mkBanco ''bbva'' ''BBVA'' True 3 False,
      mkBanco ''icbc'' ''ICBC'' False 1 False]"

text \<open>\<^verbatim>\<open>!numeroCuenta || numeroCuenta.trim() === ""\<close>\<close>

fun cuentaEnBlanco :: "string option \<Rightarrow> bool" where
  "cuentaEnBlanco None = True"
| "cuentaEnBlanco (Some s) = (s = [] \<or> list_all isSpace s)"

subsection \<open>The validation service of src/lib/validation-service.ts\<close>

definition validateSueldoMinimo :: "rat \<Rightarrow> ValidationResult" where
  "validateSueldoMinimo sueldo =
     (if sueldo < 500000 then
        result False [Text (''Sueldo insuficiente. M'' @ i' @ ''nimo requerido: $500.000'')]
          (Some (emptyDetails\<lparr>det_sueldoMinimo := Some 500000, det_sueldoActual := Some sueldo\<rparr>))
      else
        result True [Text (''Sueldo cumple requisitos m'' @ i' @ ''nimos'')]
          (Some (emptyDetails\<lparr>det_sueldoActual := Some sueldo\<rparr>)))"

text \<open>The same in both copies.\<close>

definition validateProtecap :: "string \<Rightarrow> ValidationResult" where
  "validateProtecap d =
     (case find (\<lambda>c. m_dni c = d) clientesMorosos of
        Some cliente \<Rightarrow>
          if tieneCredito cliente then
            result False [Text (''Cliente con cr'' @ e' @ ''dito activo en base Protecap'')]
              (Some (emptyDetails\<lparr>det_montoDeuda := Some (montoDeuda cliente)\<rparr>))
          else
            result True [Text (''Cliente sin cr'' @ e' @ ''ditos activos en Protecap'')]
              (Some (emptyDetails\<lparr>det_montoDeuda := Some 0\<rparr>))
      | None \<Rightarrow>
          result True [Text (''Cliente sin cr'' @ e' @ ''ditos activos en Protecap'')]
            (Some (emptyDetails\<lparr>det_montoDeuda := Some 0\<rparr>)))"

text \<open>
  \<^verbatim>\<open>validateBCRA\<close> in three parts: the identifier it queries (the first statement of
  its \<^verbatim>\<open>try\<close>, where \<^verbatim>\<open>dniToCuit\<close> may raise), the reply it obtains, and what it
  makes of the reply (from "Paso 1" to the end of the \<^verbatim>\<open>try\<close>).
\<close>

definition cuitDe :: "BCRAService \<Rightarrow> string \<Rightarrow> string + string" where
  "cuitDe svc d = (if svc_validateCuit svc d then Inr d else svc_dniToCuit svc d)"

definition totalProblematicas :: "BCRAResponse \<Rightarrow> number" where
  "totalProblematicas r =
     num_add (num_add (situacion3 (resumen r)) (situacion4 (resumen r))) (situacion5 (resumen r))"

definition porcentajeProblematicas :: "BCRAResponse \<Rightarrow> number" where
  "porcentajeProblematicas r =
     (if num_gt (totalEntidades (resumen r)) (Num 0)
      then num_mul (num_div (totalProblematicas r) (totalEntidades (resumen r))) (Num 100)
      else Num 0)"

definition evaluarRespuesta :: "BCRAResponse \<Rightarrow> ValidationResult" where
  "evaluarRespuesta r =
     (let sit5 = (inhabilitado r \<or> num_gt (situacion5 (resumen r)) (Num 0));
          pct = porcentajeProblematicas r
      in if num_ge pct (Num 40) then
           \<lparr>success = False,
            message = [Text (''Porcentaje alto de situaciones problem'' @ a' @ ''ticas: ''),
                       Fixed1 pct, Text ''%''],
            details = Some (emptyDetails\<lparr>det_bcraData := Some r,
                        det_porcentajeProblematicas := Some pct,
                        det_totalProblematicas := Some (totalProblematicas r)\<rparr>),
            vr_situacion5 = Some sit5,
            vr_porcentajeProblematicas = Some pct\<rparr>
         else
           \<lparr>success = True,
            message = [Text (''Situaci'' @ o' @ ''n BCRA favorable: ''), Fixed1 pct,
                       Text (''% situaciones problem'' @ a' @ ''ticas'')],
            details = Some (emptyDetails\<lparr>det_bcraData := Some r,
                        det_porcentajeProblematicas := Some pct,
                        det_totalEntidades := Some (totalEntidades (resumen r))\<rparr>),
            vr_situacion5 = Some sit5,
            vr_porcentajeProblematicas = Some pct\<rparr>)"

definition validateBCRA :: "BCRAService \<Rightarrow> string \<Rightarrow> ValidationResult" where
  "validateBCRA svc d =
     (case cuitDe svc d of
        Inl e \<Rightarrow>
          result False [Text (''Error t'' @ e' @ ''cnico en validaci'' @ o' @ ''n BCRA'')]
            (Some (emptyDetails\<lparr>det_error := Some ''unexpected_error'',
               det_requiresManualReview := Some True\<rparr>))
      | Inr c \<Rightarrow>
          (case svc_consultarDeudas svc c of
             Inr bcraResponse \<Rightarrow> evaluarRespuesta bcraResponse
           | Inl errorMessage \<Rightarrow>
               if errorMessage = ''TOKEN_NOT_CONFIGURED''
               then evaluarRespuesta (svc_generateMockResponse svc c)
               else
                 result False
                   [Text (''Error t'' @ e' @ ''cnico en consulta BCRA - Pendiente revisi'' @ o'
                           @ ''n manual'')]
                   (Some (emptyDetails\<lparr>det_error := Some errorMessage,
                      det_requiresManualReview := Some True\<rparr>))))"

text \<open>
  \<open>rnd\<close> is the value of \<^verbatim>\<open>Math.random()\<close>, which is called only when the bank is
  "macro" and an account number is given.
\<close>

definition validateBanco :: "rat \<Rightarrow> ClienteData \<Rightarrow> ValidationResult" where
  "validateBanco rnd cd =
     (case find (\<lambda>b. b_id b = bancoPagador cd) bancosHabilitados of
        None \<Rightarrow> result False [Text ''Banco no habilitado''] (Some emptyDetails)
      | Some b \<Rightarrow>
          if b_id b = ''macro'' \<and> tipoEmpleado cd = Privado then
            result False [Text ''Banco Macro no acepta empleados privados'']
              (Some (emptyDetails\<lparr>det_banco := Some b\<rparr>))
          else if b_restricciones b \<and> sueldoNeto cd \<le> 650000 then
            result False [Text (b_nombre b @ '' requiere sueldo superior a $650.000'')]
              (Some (emptyDetails\<lparr>det_banco := Some b, det_requiredSalary := Some 650000\<rparr>))
          else if b_situacion b \<ge> 4 then
            result False
              [Text (b_nombre b @ '' en situaci'' @ o' @ ''n '' @ show_nat (b_situacion b)
                      @ '' - No habilitado'')]
              (Some (emptyDetails\<lparr>det_banco := Some b\<rparr>))
          else if b_requiereCuenta b \<and> cuentaEnBlanco (numeroCuenta cd) then
            result False [Text (b_nombre b @ '' requiere n'' @ u' @ ''mero de cuenta'')]
              (Some (emptyDetails\<lparr>det_banco := Some b\<rparr>))
          else if b_id b = ''macro'' \<and> truthy (numeroCuenta cd) \<and> rnd < 1 / 10 then
            result False [Text ''Cuenta bancaria bloqueada'']
              (Some (emptyDetails\<lparr>det_banco := Some b, det_accountBlocked := Some True\<rparr>))
          else
            result True [Text (b_nombre b @ '' habilitado'')]
              (Some (emptyDetails\<lparr>det_banco := Some b\<rparr>)))"

text \<open>\<^verbatim>\<open>bancoResult.details?.banco\<close>\<close>

definition bancoDe :: "ValidationResult \<Rightarrow> Banco option" where
  "bancoDe r = (case details r of None \<Rightarrow> None | Some d \<Rightarrow> det_banco d)"

definition calculateMaxAmount :: "ClienteData \<Rightarrow> ValidationResult \<Rightarrow> ValidationResult \<Rightarrow> rat" where
  "calculateMaxAmount cd bcraResult bancoResult =
     (if vr_situacion5 bcraResult = Some True then 100000
      else
        (let m0 =
           (if sueldoNeto cd > 1000000 then
              (if tipoEmpleado cd = Publico \<or> tipoEmpleado cd = Jubilado then 200000
               else if tipoEmpleado cd = Privado then 150000
               else 0)
            else if sueldoNeto cd > 800000 then
              (if tipoEmpleado cd = Publico \<or> tipoEmpleado cd = Jubilado then 150000
               else if tipoEmpleado cd = Privado then 100000
               else 0)
            else if sueldoNeto cd > 500000 then 100000
            else 0)
         in case bancoDe bancoResult of
              Some b \<Rightarrow> if b_situacion b = 3 then min m0 150000 else m0
            | None \<Rightarrow> m0))"

definition rechazo :: "Resultado \<Rightarrow> msg \<Rightarrow> ValidationResult \<Rightarrow> ValidationResult \<Rightarrow> ValidationResult \<Rightarrow>
    EvaluationResult" where
  "rechazo res m p b k =
     \<lparr>resultado = res, montoMaximo = None, motivoRechazo = Some m,
      detalles = \<lparr>protecap = p, bcra = b, banco = k, montoCalculado = None\<rparr>\<rparr>"

definition requiereRevision :: "ValidationResult \<Rightarrow> bool" where
  "requiereRevision r =
     (case details r of None \<Rightarrow> False | Some d \<Rightarrow> det_requiresManualReview d = Some True)"

definition evaluateCliente :: "BCRAService \<Rightarrow> rat \<Rightarrow> ClienteData \<Rightarrow> EvaluationResult" where
  "evaluateCliente svc rnd cd =
     (let sueldoValidation = validateSueldoMinimo (sueldoNeto cd)
      in if \<not> success sueldoValidation then
           rechazo Rechazado (message sueldoValidation) noEvaluado noEvaluado noEvaluado
         else
           (let protecapResult = validateProtecap (dni cd)
            in if \<not> success protecapResult then
                 rechazo Rechazado (message protecapResult) protecapResult noEvaluado noEvaluado
               else
                 (let bcraResult = validateBCRA svc (dni cd)
                  in if \<not> success bcraResult then
                       (if requiereRevision bcraResult
                        then rechazo Pendiente (message bcraResult) protecapResult bcraResult
                               noEvaluado
                        else rechazo Rechazado (message bcraResult) protecapResult bcraResult
                               noEvaluado)
                     else
                       (let bancoResult = validateBanco rnd cd
                        in if \<not> success bancoResult then
                             rechazo Rechazado (message bancoResult) protecapResult bcraResult
                               bancoResult
                           else
                             (let m = calculateMaxAmount cd bcraResult bancoResult
                              in \<lparr>resultado = Aprobado, montoMaximo = Some m,
                                  motivoRechazo = None,
                                  detalles = \<lparr>protecap = protecapResult, bcra = bcraResult,
                                    banco = bancoResult, montoCalculado = Some m\<rparr>\<rparr>)))))"

subsection \<open>The validation service of the other copy\<close>

text \<open>
  This copy has no income stage. Its \<^verbatim>\<open>validateProtecap\<close> is the one above. Its
  \<^verbatim>\<open>validateBCRA\<close> obtains the identifier in the same way, tells the errors of the
  client apart by their message, and rejects a disqualified reply.
\<close>

definition pendienteRevision :: string where
  "pendienteRevision = '' - Pendiente revisi'' @ o' @ ''n manual''"

definition errorConsulta_p1 :: "string \<Rightarrow> ValidationResult" where
  "errorConsulta_p1 errorMessage =
     (if errorMessage = ''TIMEOUT'' then
        result False [Text (''Timeout en consulta BCRA'' @ pendienteRevision)]
          (Some (emptyDetails\<lparr>det_error := Some ''timeout'',
             det_requiresManualReview := Some True\<rparr>))
      else if errorMessage = ''MAX_RETRIES_EXCEEDED'' then
        result False [Text (''Error de conexi'' @ o' @ ''n con BCRA'' @ pendienteRevision)]
          (Some (emptyDetails\<lparr>det_error := Some ''connection_failed'',
             det_requiresManualReview := Some True\<rparr>))
      else if take 11 errorMessage = ''HTTP_ERROR_'' then
        result False
          [Text (''Error HTTP '' @ drop 11 errorMessage @ '' en consulta BCRA''
                  @ pendienteRevision)]
          (Some (emptyDetails\<lparr>det_error := Some ''http_error'',
             det_statusCode := Some (drop 11 errorMessage),
             det_requiresManualReview := Some True\<rparr>))
      else
        result False
          [Text (''Error t'' @ e' @ ''cnico en consulta BCRA'' @ pendienteRevision)]
          (Some (emptyDetails\<lparr>det_error := Some ''unknown'',
             det_requiresManualReview := Some True\<rparr>)))"

definition evaluarRespuesta_p1 :: "BCRAResponse \<Rightarrow> ValidationResult" where
  "evaluarRespuesta_p1 r =
     (if inhabilitado r then
        result False [Text (''Cliente inhabilitado en BCRA (Situaci'' @ o' @ ''n 5)'')]
          (Some (emptyDetails\<lparr>det_bcraData := Some r,
             det_situacion5Count := Some (situacion5 (resumen r))\<rparr>))
      else
        (let pct = porcentajeProblematicas r
         in if num_ge pct (Num 40) then
              result False
                [Text (''Porcentaje alto de situaciones problem'' @ a' @ ''ticas: ''),
                 Fixed1 pct, Text ''%'']
                (Some (emptyDetails\<lparr>det_bcraData := Some r,
                   det_porcentajeProblematicas := Some pct,
                   det_totalProblematicas := Some (totalProblematicas r)\<rparr>))
            else
              result True
                [Text (''Situaci'' @ o' @ ''n BCRA favorable: ''), Fixed1 pct,
                 Text (''% situaciones problem'' @ a' @ ''ticas'')]
                (Some (emptyDetails\<lparr>det_bcraData := Some r,
                   det_porcentajeProblematicas := Some pct,
                   det_totalEntidades := Some (totalEntidades (resumen r)),
                   det_montoTotal := Some (montoTotal (resumen r))\<rparr>))))"

definition validateBCRA_p1 :: "BCRAService \<Rightarrow> string \<Rightarrow> ValidationResult" where
  "validateBCRA_p1 svc d =
     (case cuitDe svc d of
        Inl e \<Rightarrow>
          result False
            [Text (''Error t'' @ e' @ ''cnico en validaci'' @ o' @ ''n BCRA'' @ pendienteRevision)]
            (Some (emptyDetails\<lparr>det_error := Some ''unexpected_error'',
               det_requiresManualReview := Some True\<rparr>))
      | Inr c \<Rightarrow>
          (case svc_consultarDeudas svc c of
             Inr bcraResponse \<Rightarrow> evaluarRespuesta_p1 bcraResponse
           | Inl errorMessage \<Rightarrow>
               if errorMessage = ''TOKEN_NOT_CONFIGURED''
               then evaluarRespuesta_p1 (svc_generateMockResponse svc c)
               else errorConsulta_p1 errorMessage))"

text \<open>Here \<^verbatim>\<open>Math.random()\<close> is called for every bank that passes the checks before it.\<close>

definition validateBanco_p1 :: "rat \<Rightarrow> ClienteData \<Rightarrow> ValidationResult" where
  "validateBanco_p1 rnd cd =
     (case find (\<lambda>b. b_id b = bancoPagador cd) bancosData of
        None \<Rightarrow> result False [Text ''Banco no encontrado''] (Some emptyDetails)
      | Some b \<Rightarrow>
          if b_restricciones b \<and> sueldoNeto cd < 650000 then
            result False [Text (b_nombre b @ '' requiere sueldo m'' @ i' @ ''nimo de $650.000'')]
              (Some (emptyDetails\<lparr>det_banco := Some b, det_requiredSalary := Some 650000\<rparr>))
          else if b_situacion b \<ge> 4 then
            result False
              [Text (b_nombre b @ '' en situaci'' @ o' @ ''n '' @ show_nat (b_situacion b)
                      @ '' - No habilitado'')]
              (Some (emptyDetails\<lparr>det_banco := Some b\<rparr>))
          else if b_id b = ''macro'' \<and> tipoEmpleado cd = Privado then
            result False [Text ''Banco Macro no acepta empleados privados'']
              (Some (emptyDetails\<lparr>det_banco := Some b\<rparr>))
          else if b_requiereCuenta b \<and> cuentaEnBlanco (numeroCuenta cd) then
            result False [Text (b_nombre b @ '' requiere n'' @ u' @ ''mero de cuenta'')]
              (Some (emptyDetails\<lparr>det_banco := Some b\<rparr>))
          else if rnd < 5 / 100 then
            result False [Text ''Cuenta bancaria bloqueada'']
              (Some (emptyDetails\<lparr>det_banco := Some b, det_accountBlocked := Some True\<rparr>))
          else
            result True [Text (b_nombre b @ '' habilitado'')]
              (Some (emptyDetails\<lparr>det_banco := Some b\<rparr>)))"

text \<open>\<^verbatim>\<open>bcraDetails?.porcentajeProblematicas > 20\<close>: a missing field compares false.\<close>

definition campoMayor :: "ValidationResult \<Rightarrow> (Details \<Rightarrow> number option) \<Rightarrow> rat \<Rightarrow> bool" where
  "campoMayor r f n =
     (case details r of
        None \<Rightarrow> False
      | Some d \<Rightarrow> (case f d of None \<Rightarrow> False | Some x \<Rightarrow> num_gt x (Num n)))"

definition calculateMaxAmount_p1 :: "ClienteData \<Rightarrow> ValidationResult \<Rightarrow> ValidationResult \<Rightarrow> rat" where
  "calculateMaxAmount_p1 cd bcraResult bancoResult =
     (let m1 = (if sueldoNeto cd \<ge> 1000000 then 200000
                else if sueldoNeto cd \<ge> 800000 then 150000
                else if sueldoNeto cd \<ge> 500000 then 100000
                else 0);
          m2 = (if tipoEmpleado cd = Publico \<or> tipoEmpleado cd = Jubilado then min m1 200000
                else if tipoEmpleado cd = Privado then min m1 150000
                else m1);
          m3 = (case bancoDe bancoResult of
                  Some b \<Rightarrow> if b_situacion b = 3 then min m2 150000 else m2
                | None \<Rightarrow> m2);
          m4 = (if campoMayor bcraResult det_porcentajeProblematicas 20 then min m3 100000
                else m3);
          m5 = (if campoMayor bcraResult det_montoTotal 100000 then min m4 100000 else m4)
      in m5)"

definition noCalifica :: msg where
  "noCalifica = [Text (''No califica para monto m'' @ i' @ ''nimo de pr'' @ e' @ ''stamo'')]"

text \<open>
  The body of the \<^verbatim>\<open>try\<close> of \<^verbatim>\<open>evaluateCliente\<close>. Nothing in it raises (the stages
  return their failures as results), so the \<^verbatim>\<open>catch\<close>, which would answer
  \<^verbatim>\<open>pendiente\<close>, is never entered.
\<close>

definition evaluateCliente_p1 :: "BCRAService \<Rightarrow> rat \<Rightarrow> ClienteData \<Rightarrow> EvaluationResult" where
  "evaluateCliente_p1 svc rnd cd =
     (let protecapResult = validateProtecap (dni cd)
      in if \<not> success protecapResult then
           rechazo Rechazado (message protecapResult) protecapResult noEvaluado noEvaluado
         else
           (let bcraResult = validateBCRA_p1 svc (dni cd)
            in if \<not> success bcraResult then
                 (if requiereRevision bcraResult
                  then rechazo Pendiente (message bcraResult) protecapResult bcraResult noEvaluado
                  else rechazo Rechazado (message bcraResult) protecapResult bcraResult
                         noEvaluado)
               else
                 (let bancoResult = validateBanco_p1 rnd cd
                  in if \<not> success bancoResult then
                       rechazo Rechazado (message bancoResult) protecapResult bcraResult
                         bancoResult
                     else
                       (let m = calculateMaxAmount_p1 cd bcraResult bancoResult
                        in if m = 0 then
                             \<lparr>resultado = Rechazado, montoMaximo = None,
                              motivoRechazo = Some noCalifica,
                              detalles = \<lparr>protecap = protecapResult, bcra = bcraResult,
                                banco = bancoResult, montoCalculado = Some 0\<rparr>\<rparr>
                           else
                             \<lparr>resultado = Aprobado, montoMaximo = Some m,
                              motivoRechazo = None,
                              detalles = \<lparr>protecap = protecapResult, bcra = bcraResult,
                                banco = bancoResult, montoCalculado = Some m\<rparr>\<rparr>))))"

subsection \<open>Notions used in the statements\<close>





text \<open>The base amount by income bracket in the words of the specification.\<close>

definition baseAmount_spec :: "rat \<Rightarrow> rat" where
  "baseAmount_spec sueldo =
     (if sueldo \<ge> 1000000 then 200000
      else if sueldo \<ge> 800000 then 150000
      else if sueldo \<ge> 500000 then 100000
      else 0)"

text \<open>
  The reply that the bureau stage goes on to classify, if it gets that far: the reply
  of the client, or the simulated one when the client raises
  \<^verbatim>\<open>TOKEN_NOT_CONFIGURED\<close>. There is none when \<^verbatim>\<open>dniToCuit\<close> raises or the client raises
  anything else.
\<close>

definition respuestaDe :: "BCRAService \<Rightarrow> string \<Rightarrow> BCRAResponse option" where
  "respuestaDe svc d =
     (case cuitDe svc d of
        Inl e \<Rightarrow> None
      | Inr c \<Rightarrow>
          (case svc_consultarDeudas svc c of
             Inr r \<Rightarrow> Some r
           | Inl e \<Rightarrow>
               if e = ''TOKEN_NOT_CONFIGURED'' then Some (svc_generateMockResponse svc c)
               else None))"

text \<open>The summary of a reply: the counts, the totals and the disqualification flag.\<close>

definition bureauSummary :: "BCRAResponse \<Rightarrow> Resumen \<times> bool" where
  "bureauSummary r = (resumen r, inhabilitado r)"

text \<open>
  Concrete inputs: an applicant, an environment without and with a token, a network that
  answers every request with the status 503, a network that answers with the given
  debts, and the successive values of \<^verbatim>\<open>Math.random()\<close> given as a list (0 after its
  end).
\<close>

definition cliente :: "string \<Rightarrow> rat \<Rightarrow> TipoEmpleado \<Rightarrow> string \<Rightarrow> string option \<Rightarrow> ClienteData" where
  "cliente d sueldo tipo b cuenta =
     \<lparr>nombre = ''Ana'', apellido = ''Paz'', dni = d, sueldoNeto = sueldo, tipoEmpleado = tipo,
      provincia = ''CABA'', bancoPagador = b, numeroCuenta = cuenta\<rparr>"

definition sinToken :: Env where
  "sinToken = \<lparr>NEXT_PUBLIC_BCRA_TOKEN = None, BCRA_TOKEN = None\<rparr>"

definition conToken :: Env where
  "conToken = \<lparr>NEXT_PUBLIC_BCRA_TOKEN = None, BCRA_TOKEN = Some ''secreto''\<rparr>"

definition red503 :: "nat \<Rightarrow> fetched" where
  "red503 k = FetchResponse 503 (Inl [])"

definition deuda :: "string \<Rightarrow> rat \<Rightarrow> rat \<Rightarrow> BCRADeuda" where
  "deuda e s m =
     \<lparr>entidad = e, situacion = Num s, monto = Num m, fechaActualizacion = ''2024-01-01''\<rparr>"

definition redCon :: "BCRADeuda list \<Rightarrow> nat \<Rightarrow> fetched" where
  "redCon ds k = FetchResponse 200 (Inr \<lparr>api_deudas = Some ds, api_observaciones = None\<rparr>)"

definition tiradas :: "rat list \<Rightarrow> nat \<Rightarrow> rat" where
  "tiradas xs k = (if k < length xs then xs ! k else 0)"

section \<open>The identifier service\<close>


lemma digitVal_less: "isDigit c \<Longrightarrow> digitVal c < 10"
  by (auto simp add: isDigit_def digitVal_def)


























section \<open>The bank stage and the amount\<close>

lemma success_result: "success (result ok m d) = ok"
  by (simp add: result_def)

text \<open>
  Claim C10. In \<^verbatim>\<open>calculateMaxAmount\<close> of \<^verbatim>\<open>src/lib/validation-service.ts\<close>, with the
  employment category unset, no tier-5 flag and a net income above 800,000, the amount
  is 0.
\<close>

theorem calculateMaxAmount_unset_category:
  "tipoEmpleado cd = SinTipo \<Longrightarrow> vr_situacion5 bcraResult \<noteq> Some True \<Longrightarrow>
   sueldoNeto cd > 800000 \<Longrightarrow> calculateMaxAmount cd bcraResult bancoResult = 0"
  by (simp add: calculateMaxAmount_def Let_def split: option.split)

text \<open>Claim C10, witness: an income of 900,000 without a category.\<close>

theorem calculateMaxAmount_unset_category_witness:
  "tipoEmpleado (cliente ''30111222'' 900000 SinTipo ''nacion'' None) = SinTipo \<and>
   sueldoNeto (cliente ''30111222'' 900000 SinTipo ''nacion'' None) > 800000 \<and>
   calculateMaxAmount (cliente ''30111222'' 900000 SinTipo ''nacion'' None)
     (evaluarRespuesta (respuestaFavorable ''20301112220'' ''t''))
     (validateBanco (1 / 2) (cliente ''30111222'' 900000 SinTipo ''nacion'' None)) = 0"
proof -
  have a: "tipoEmpleado (cliente ''30111222'' 900000 SinTipo ''nacion'' None) = SinTipo"
    by (simp add: cliente_def)
  have b: "vr_situacion5 (evaluarRespuesta (respuestaFavorable ''20301112220'' ''t'')) \<noteq> Some True"
    by (simp add: evaluarRespuesta_def respuestaFavorable_def Let_def)
  have c: "sueldoNeto (cliente ''30111222'' 900000 SinTipo ''nacion'' None) > 800000"
    by (simp add: cliente_def)
  from a c calculateMaxAmount_unset_category [OF a b c] show ?thesis by blast
qed

text \<open>
  Claim C9, counterexample. With the restricted bank "bbva" and a net income of exactly
  650,000, the bank stage of the copy in \<^verbatim>\<open>src/unnamed/part_001\<close> passes.
\<close>

theorem validateBanco_counterexample:
  "find (\<lambda>b. b_id b = ''bbva'') bancosData = Some (mkBanco ''bbva'' ''BBVA'' True 3 False) \<and>
   sueldoNeto (cliente ''30111222'' 650000 Publico ''bbva'' None) \<le> 650000 \<and>
   success (validateBanco_p1 (1 / 2) (cliente ''30111222'' 650000 Publico ''bbva'' None))"
  by (simp add: validateBanco_p1_def cliente_def bancosData_def mkBanco_def success_result)

text \<open>
  Claim C9, as amended. In \<^verbatim>\<open>src/lib/validation-service.ts\<close> the bank stage fails
  exactly when the bank is not in the table, or it requires an account number and none
  or a blank one is given, or it has restrictions and the net income is at most
  650,000, or its tier is 4 or more, or it is "macro" with private employment, or it is
  "macro" with an account number and the random value is below 0.1. In the other copy
  the income condition is strict (below 650,000) and the random check applies to every
  bank, below 0.05.
\<close>

theorem validateBanco_amended:
  "(\<not> success (validateBanco rnd cd) \<longleftrightarrow>
      (case find (\<lambda>b. b_id b = bancoPagador cd) bancosHabilitados of
         None \<Rightarrow> True
       | Some b \<Rightarrow>
           b_requiereCuenta b \<and> cuentaEnBlanco (numeroCuenta cd) \<or>
           b_restricciones b \<and> sueldoNeto cd \<le> 650000 \<or>
           4 \<le> b_situacion b \<or>
           b_id b = ''macro'' \<and> tipoEmpleado cd = Privado \<or>
           b_id b = ''macro'' \<and> truthy (numeroCuenta cd) \<and> rnd < 1 / 10)) \<and>
   (\<not> success (validateBanco_p1 rnd cd) \<longleftrightarrow>
      (case find (\<lambda>b. b_id b = bancoPagador cd) bancosData of
         None \<Rightarrow> True
       | Some b \<Rightarrow>
           b_requiereCuenta b \<and> cuentaEnBlanco (numeroCuenta cd) \<or>
           b_restricciones b \<and> sueldoNeto cd < 650000 \<or>
           4 \<le> b_situacion b \<or>
           b_id b = ''macro'' \<and> tipoEmpleado cd = Privado \<or>
           rnd < 5 / 100))"
  by (auto simp add: validateBanco_def validateBanco_p1_def success_result split: option.split)

text \<open>
  Claim C9, witness: "bbva" with an income of 650,000 fails in
  \<^verbatim>\<open>src/lib/validation-service.ts\<close> by the income condition, and in the other copy by
  the random value 0.01.
\<close>

theorem validateBanco_amended_witness:
  "\<not> success (validateBanco (1 / 2) (cliente ''30111222'' 650000 Publico ''bbva'' None)) \<and>
   \<not> success (validateBanco_p1 (1 / 100) (cliente ''30111222'' 650000 Publico ''bbva'' None))"
proof -
  let ?cd = "cliente ''30111222'' 650000 Publico ''bbva'' None"
  have a: "(case find (\<lambda>b. b_id b = bancoPagador ?cd) bancosHabilitados of
         None \<Rightarrow> True
       | Some b \<Rightarrow>
           b_requiereCuenta b \<and> cuentaEnBlanco (numeroCuenta ?cd) \<or>
           b_restricciones b \<and> sueldoNeto ?cd \<le> 650000 \<or>
           4 \<le> b_situacion b \<or>
           b_id b = ''macro'' \<and> tipoEmpleado ?cd = Privado \<or>
           b_id b = ''macro'' \<and> truthy (numeroCuenta ?cd) \<and> (1 / 2 :: rat) < 1 / 10)"
    by (simp add: cliente_def bancosHabilitados_def mkBanco_def)
  have b: "(case find (\<lambda>b. b_id b = bancoPagador ?cd) bancosData of
         None \<Rightarrow> True
       | Some b \<Rightarrow>
           b_requiereCuenta b \<and> cuentaEnBlanco (numeroCuenta ?cd) \<or>
           b_restricciones b \<and> sueldoNeto ?cd < 650000 \<or>
           4 \<le> b_situacion b \<or>
           b_id b = ''macro'' \<and> tipoEmpleado ?cd = Privado \<or>
           (1 / 100 :: rat) < 5 / 100)"
    by (simp add: cliente_def bancosData_def mkBanco_def)
  from a b validateBanco_amended [of "1 / 2" ?cd] validateBanco_amended [of "1 / 100" ?cd]
  show ?thesis by blast
qed



lemma calc_p1_bounds:
  "0 \<le> calculateMaxAmount_p1 cd bcraResult bancoResult \<and>
   calculateMaxAmount_p1 cd bcraResult bancoResult \<le> baseAmount_spec (sueldoNeto cd)"
  by (auto simp add: calculateMaxAmount_p1_def baseAmount_spec_def Let_def min_def
      split: option.splits)











section \<open>The bureau client\<close>

text \<open>Three failed attempts: the loop asks three times, waits twice, and raises the last error.\<close>

lemma retryLoop_all_fail:
  assumes "makeRequest (net 1) = Inl e1" and "makeRequest (net 2) = Inl e2"
    and "makeRequest (net 3) = Inl e3"
  shows "retryLoop net c now 1 None [] =
           (Inl e3, [Request 1, Wait 2000, Request 2, Wait 4000, Request 3])"
proof -
  have s4: "\<And>tr. retryLoop net c now 4 (Some e3) tr = (Inl e3, tr)"
    by (subst retryLoop.simps) (simp add: MAX_RETRIES_def)
  have s3: "\<And>tr. retryLoop net c now 3 (Some e2) tr = (Inl e3, tr @ [Request 3])"
    by (subst retryLoop.simps) (simp add: MAX_RETRIES_def assms s4)
  have s2: "\<And>tr. retryLoop net c now 2 (Some e1) tr =
              (Inl e3, tr @ [Request 2, Wait 4000, Request 3])"
    by (subst retryLoop.simps) (simp add: MAX_RETRIES_def assms s3)
  show ?thesis
    by (subst retryLoop.simps) (simp add: MAX_RETRIES_def assms s2 del: One_nat_def)
qed

text \<open>
  Claim C5, counterexample. With a token and the status 503 on every attempt, the
  client makes three requests with waits of 2 and 4 seconds and then raises the error of
  the last attempt, \<^verbatim>\<open>HTTP_ERROR_503\<close>, not \<^verbatim>\<open>MAX_RETRIES_EXCEEDED\<close>.
\<close>

theorem consultarDeudas_retry_counterexample:
  "truthy (getAuthToken_b conToken) \<and>
   fst (consultarDeudas_b conToken red503 ''20301112220'' ''t'') = Inl ''HTTP_ERROR_503'' \<and>
   fst (consultarDeudas_b conToken red503 ''20301112220'' ''t'') \<noteq> Inl ''MAX_RETRIES_EXCEEDED'' \<and>
   snd (consultarDeudas_b conToken red503 ''20301112220'' ''t'') =
     [Request 1, Wait 2000, Request 2, Wait 4000, Request 3]"
  by code_simp

text \<open>
  Claim C5, as amended. In live mode (copy b with a token), when every attempt fails,
  the client makes exactly 3 attempts, waits 2 seconds after the first and 4 seconds
  after the second, does not wait after the third, and then raises the error of the third
  attempt as it is; \<^verbatim>\<open>MAX_RETRIES_EXCEEDED\<close> is raised only when no error was recorded,
  which three attempts exclude. Copy a never has a token: it raises
  \<^verbatim>\<open>TOKEN_NOT_CONFIGURED\<close> without any attempt.
\<close>

theorem consultarDeudas_retry_amended:
  "truthy (getAuthToken_b env) \<Longrightarrow> makeRequest (net 1) = Inl e1 \<Longrightarrow>
   makeRequest (net 2) = Inl e2 \<Longrightarrow> makeRequest (net 3) = Inl e3 \<Longrightarrow>
   consultarDeudas_b env net c now =
     (Inl e3, [Request 1, Wait 2000, Request 2, Wait 4000, Request 3]) \<and>
   consultarDeudas_a net c now = (Inl ''TOKEN_NOT_CONFIGURED'', [])"
proof -
  assume t: "truthy (getAuthToken_b env)"
    and a: "makeRequest (net 1) = Inl e1" "makeRequest (net 2) = Inl e2"
      "makeRequest (net 3) = Inl e3"
  from t have "consultarDeudas_b env net c now = retryLoop net c now 1 None []"
    by (simp add: consultarDeudas_b_def del: One_nat_def)
  with retryLoop_all_fail [OF a]
  have b: "consultarDeudas_b env net c now =
     (Inl e3, [Request 1, Wait 2000, Request 2, Wait 4000, Request 3])"
    by (simp only:)
  have "consultarDeudas_a net c now = (Inl ''TOKEN_NOT_CONFIGURED'', [])"
    by (simp add: consultarDeudas_a_def getAuthToken_a_def)
  with b show ?thesis by blast
qed

text \<open>Claim C5, witness: two rejections that are no \<^verbatim>\<open>Error\<close>, then a timeout.\<close>

theorem consultarDeudas_retry_amended_witness:
  "truthy (getAuthToken_b conToken) \<and>
   consultarDeudas_b conToken (\<lambda>k. if k = 3 then FetchAbort else FetchThrown) ''20301112220'' ''t'' =
     (Inl ''TIMEOUT'', [Request 1, Wait 2000, Request 2, Wait 4000, Request 3])"
proof -
  let ?net = "\<lambda>k::nat. if k = 3 then FetchAbort else FetchThrown"
  have t: "truthy (getAuthToken_b conToken)"
    by (simp add: getAuthToken_b_def conToken_def)
  have a: "makeRequest (?net 1) = Inl ''UNKNOWN_ERROR''" by (simp add: makeRequest_def)
  have b: "makeRequest (?net 2) = Inl ''UNKNOWN_ERROR''" by (simp add: makeRequest_def)
  have c: "makeRequest (?net 3) = Inl ''TIMEOUT''" by (simp add: makeRequest_def)
  from t consultarDeudas_retry_amended [OF t a b c] show ?thesis by blast
qed

text \<open>The summary that copy b simulates does not depend on the clock.\<close>

lemma resumen_mock_b:
  "slice4 c = slice4 c' \<Longrightarrow>
   bureauSummary (generateMockResponse_b c now) = bureauSummary (generateMockResponse_b c' now')"
  by (simp add: bureauSummary_def generateMockResponse_b_def seededRandom_def Let_def
      respuestaFavorable_def)

text \<open>
  Claim C6, counterexample. Copy a simulates with \<^verbatim>\<open>Math.random()\<close>: for the same
  identifier, a first value of 0.5 gives the favourable summary and a first value of 0.9
  gives another one, and the same applicant is approved in one evaluation and rejected
  in the other.
\<close>

theorem generateMockResponse_counterexample:
  "bureauSummary (generateMockResponse_a (tiradas [1 / 2]) ''20301112220'' ''t'') \<noteq>
   bureauSummary (generateMockResponse_a (tiradas [9 / 10, 1 / 2]) ''20301112220'' ''t'') \<and>
   fst (consultarDeudas_a red503 ''20301112220'' ''t'') = Inl ''TOKEN_NOT_CONFIGURED'' \<and>
   resultado (evaluateCliente (BCRAService_a (tiradas [1 / 2]) red503 ''t'') (1 / 2)
     (cliente ''30111222'' 900000 Publico ''nacion'' None)) = Aprobado \<and>
   resultado (evaluateCliente (BCRAService_a (tiradas [9 / 10, 1 / 2]) red503 ''t'') (1 / 2)
     (cliente ''30111222'' 900000 Publico ''nacion'' None)) = Rechazado"
  by code_simp

text \<open>
  Claim C6, as amended. In copy b, without a token, two queries with the same tax
  identifier (indeed with the same last four characters) return the same summary
  (counts, totals and disqualification flag), whatever the clock, the network and the
  rest of the environment; only the time stamps of the reply can differ, and no request
  is made. Copy a simulates with
  \<^verbatim>\<open>Math.random()\<close>, and its summaries can differ from call to call.
\<close>

theorem generateMockResponse_seeded_amended:
  "\<not> truthy (getAuthToken_b env) \<Longrightarrow> \<not> truthy (getAuthToken_b env') \<Longrightarrow>
   slice4 c = slice4 c' \<Longrightarrow>
   map_sum id bureauSummary (fst (consultarDeudas_b env net c now)) =
     map_sum id bureauSummary (fst (consultarDeudas_b env' net' c' now')) \<and>
   fst (consultarDeudas_b env net c now) = Inr (generateMockResponse_b c now) \<and>
   snd (consultarDeudas_b env net c now) = []"
  by (simp add: consultarDeudas_b_def resumen_mock_b)

text \<open>Claim C6, witness: two queries on different days over different networks.\<close>

theorem generateMockResponse_seeded_amended_witness:
  "map_sum id bureauSummary (fst (consultarDeudas_b sinToken red503 ''20301112220'' ''lunes'')) =
     map_sum id bureauSummary
       (fst (consultarDeudas_b sinToken (redCon []) ''20301112220'' ''martes''))"
proof -
  have t: "\<not> truthy (getAuthToken_b sinToken)"
    by (simp add: getAuthToken_b_def sinToken_def)
  from generateMockResponse_seeded_amended [OF t t refl] show ?thesis by blast
qed

section \<open>The outcome of an evaluation\<close>

lemma requiereRevision_result:
  "requiereRevision (result ok m d) =
     (case d of None \<Rightarrow> False | Some x \<Rightarrow> det_requiresManualReview x = Some True)"
  by (simp add: requiereRevision_def result_def)

lemma evaluarRespuesta_no_revision: "\<not> requiereRevision (evaluarRespuesta r)"
  by (simp add: evaluarRespuesta_def requiereRevision_def Let_def emptyDetails_def)

lemma evaluarRespuesta_p1_no_revision: "\<not> requiereRevision (evaluarRespuesta_p1 r)"
  by (simp add: evaluarRespuesta_p1_def requiereRevision_result Let_def emptyDetails_def)

lemma errorConsulta_p1_revision:
  "\<not> success (errorConsulta_p1 e) \<and> requiereRevision (errorConsulta_p1 e)"
  by (simp add: errorConsulta_p1_def requiereRevision_result success_result emptyDetails_def)

lemma validateBCRA_some:
  "respuestaDe svc d = Some r \<Longrightarrow>
   validateBCRA svc d = evaluarRespuesta r \<and> validateBCRA_p1 svc d = evaluarRespuesta_p1 r"
  by (auto simp add: respuestaDe_def validateBCRA_def validateBCRA_p1_def
      split: sum.splits if_splits)

lemma validateBCRA_none:
  "respuestaDe svc d = None \<Longrightarrow>
   \<not> success (validateBCRA svc d) \<and> requiereRevision (validateBCRA svc d) \<and>
   \<not> success (validateBCRA_p1 svc d) \<and> requiereRevision (validateBCRA_p1 svc d)"
  by (auto simp add: respuestaDe_def validateBCRA_def validateBCRA_p1_def
      errorConsulta_p1_revision requiereRevision_result success_result emptyDetails_def
      split: sum.splits if_splits)

lemma respuestaDe_none_iff:
  "respuestaDe svc d = None \<longleftrightarrow>
     (\<exists>e. cuitDe svc d = Inl e) \<or>
     (\<exists>c e. cuitDe svc d = Inr c \<and> svc_consultarDeudas svc c = Inl e \<and>
        e \<noteq> ''TOKEN_NOT_CONFIGURED'')"
  by (auto simp add: respuestaDe_def split: sum.splits if_splits)

lemma success_validateSueldoMinimo: "success (validateSueldoMinimo x) \<longleftrightarrow> \<not> x < 500000"
  by (simp add: validateSueldoMinimo_def success_result)

lemma resultado_rechazo: "resultado (rechazo res m p b k) = res"
  by (simp add: rechazo_def)

lemma bcra_rechazo: "bcra (detalles (rechazo res m p b k)) = b"
  by (simp add: rechazo_def)

lemma evaluateCliente_pendiente:
  "resultado (evaluateCliente svc rnd cd) = Pendiente \<longleftrightarrow>
     \<not> sueldoNeto cd < 500000 \<and> success (validateProtecap (dni cd)) \<and>
     respuestaDe svc (dni cd) = None"
proof (cases "respuestaDe svc (dni cd)")
  case None
  from validateBCRA_none [OF None] show ?thesis
    by (simp add: evaluateCliente_def Let_def resultado_rechazo success_validateSueldoMinimo None)
next
  case (Some r)
  from validateBCRA_some [OF Some] evaluarRespuesta_no_revision [of r] show ?thesis
    by (simp add: evaluateCliente_def Let_def resultado_rechazo success_validateSueldoMinimo Some)
qed

lemma evaluateCliente_p1_pendiente:
  "resultado (evaluateCliente_p1 svc rnd cd) = Pendiente \<longleftrightarrow>
     success (validateProtecap (dni cd)) \<and> respuestaDe svc (dni cd) = None"
proof (cases "respuestaDe svc (dni cd)")
  case None
  from validateBCRA_none [OF None] show ?thesis
    by (simp add: evaluateCliente_p1_def Let_def resultado_rechazo None)
next
  case (Some r)
  from validateBCRA_some [OF Some] evaluarRespuesta_p1_no_revision [of r] show ?thesis
    by (simp add: evaluateCliente_p1_def Let_def resultado_rechazo Some)
qed

lemma evaluateCliente_pendiente_revision:
  "resultado (evaluateCliente svc rnd cd) = Pendiente \<Longrightarrow>
   requiereRevision (bcra (detalles (evaluateCliente svc rnd cd)))"
  by (auto simp add: evaluateCliente_def Let_def resultado_rechazo bcra_rechazo
      split: if_splits)

lemma evaluateCliente_p1_pendiente_revision:
  "resultado (evaluateCliente_p1 svc rnd cd) = Pendiente \<Longrightarrow>
   requiereRevision (bcra (detalles (evaluateCliente_p1 svc rnd cd)))"
  by (auto simp add: evaluateCliente_p1_def Let_def resultado_rechazo bcra_rechazo
      split: if_splits)

lemma evaluateCliente_aprobado:
  "resultado (evaluateCliente svc rnd cd) = Aprobado \<longleftrightarrow>
     \<not> sueldoNeto cd < 500000 \<and> success (validateProtecap (dni cd)) \<and>
     (\<exists>r. respuestaDe svc (dni cd) = Some r \<and> success (evaluarRespuesta r)) \<and>
     success (validateBanco rnd cd)"
proof (cases "respuestaDe svc (dni cd)")
  case None
  from validateBCRA_none [OF None] show ?thesis
    by (simp add: evaluateCliente_def Let_def resultado_rechazo success_validateSueldoMinimo None)
next
  case (Some r)
  from validateBCRA_some [OF Some] show ?thesis
    by (simp add: evaluateCliente_def Let_def resultado_rechazo success_validateSueldoMinimo Some)
qed

lemma evaluateCliente_p1_aprobado_iff:
  "resultado (evaluateCliente_p1 svc rnd cd) = Aprobado \<longleftrightarrow>
     success (validateProtecap (dni cd)) \<and>
     (\<exists>r. respuestaDe svc (dni cd) = Some r \<and> success (evaluarRespuesta_p1 r) \<and>
        calculateMaxAmount_p1 cd (evaluarRespuesta_p1 r) (validateBanco_p1 rnd cd) \<noteq> 0) \<and>
     success (validateBanco_p1 rnd cd)"
proof (cases "respuestaDe svc (dni cd)")
  case None
  from validateBCRA_none [OF None] show ?thesis
    by (simp add: evaluateCliente_p1_def Let_def resultado_rechazo None)
next
  case (Some r)
  from validateBCRA_some [OF Some] show ?thesis
    by (auto simp add: evaluateCliente_p1_def Let_def resultado_rechazo Some)
qed

text \<open>
  Claim C3, counterexample. A person identifier of 3 digits makes \<^verbatim>\<open>dniToCuit\<close> raise
  inside the bureau stage; no query is made and nothing fails technically, and the
  outcome is \<^verbatim>\<open>pendiente\<close> in both copies of the validation service, with either
  copy of the bureau service.
\<close>

theorem evaluateCliente_outcomes_counterexample:
  "dniToCuit_b ''123'' = Inl dni_invalido \<and> dniToCuit_a ''123'' = Inl ''DNI_INVALID_LENGTH'' \<and>
   resultado (evaluateCliente (BCRAService_b sinToken red503 ''t'') (1 / 2)
     (cliente ''123'' 900000 Publico ''nacion'' None)) = Pendiente \<and>
   resultado (evaluateCliente_p1 (BCRAService_b sinToken red503 ''t'') (1 / 2)
     (cliente ''123'' 900000 Publico ''nacion'' None)) = Pendiente \<and>
   resultado (evaluateCliente (BCRAService_a (tiradas []) red503 ''t'') (1 / 2)
     (cliente ''123'' 900000 Publico ''nacion'' None)) = Pendiente \<and>
   resultado (evaluateCliente_p1 (BCRAService_a (tiradas []) red503 ''t'') (1 / 2)
     (cliente ''123'' 900000 Publico ''nacion'' None)) = Pendiente"
  by code_simp

text \<open>
  Claim C3, as amended. \<^verbatim>\<open>evaluateCliente\<close> returns one of the three outcomes and
  raises nothing (it is a total function into \<open>EvaluationResult\<close>: every error of the
  bureau service is caught inside the bureau stage). It returns \<^verbatim>\<open>pendiente\<close> exactly
  when the stages before the bureau stage pass and the bureau stage obtains no reply,
  that is, when \<^verbatim>\<open>dniToCuit\<close> raises (a person identifier of invalid length) or the
  client raises any error other than \<^verbatim>\<open>TOKEN_NOT_CONFIGURED\<close>; the bureau result then
  carries \<^verbatim>\<open>requiresManualReview = true\<close>. It returns \<^verbatim>\<open>aprobado\<close> exactly when
  every stage passes (and, in the copy in \<^verbatim>\<open>src/unnamed/part_001\<close>, the amount is not
  0). Everything else, so every other failure of a stage, gives \<^verbatim>\<open>rechazado\<close>.
\<close>

theorem evaluateCliente_outcomes_amended:
  "resultado (evaluateCliente svc rnd cd) \<in> {Aprobado, Rechazado, Pendiente} \<and>
   resultado (evaluateCliente_p1 svc rnd cd) \<in> {Aprobado, Rechazado, Pendiente} \<and>
   (resultado (evaluateCliente svc rnd cd) = Pendiente \<longleftrightarrow>
      \<not> sueldoNeto cd < 500000 \<and> success (validateProtecap (dni cd)) \<and>
      respuestaDe svc (dni cd) = None) \<and>
   (resultado (evaluateCliente_p1 svc rnd cd) = Pendiente \<longleftrightarrow>
      success (validateProtecap (dni cd)) \<and> respuestaDe svc (dni cd) = None) \<and>
   (resultado (evaluateCliente svc rnd cd) = Aprobado \<longleftrightarrow>
      \<not> sueldoNeto cd < 500000 \<and> success (validateProtecap (dni cd)) \<and>
      (\<exists>r. respuestaDe svc (dni cd) = Some r \<and> success (evaluarRespuesta r)) \<and>
      success (validateBanco rnd cd)) \<and>
   (resultado (evaluateCliente_p1 svc rnd cd) = Aprobado \<longleftrightarrow>
      success (validateProtecap (dni cd)) \<and>
      (\<exists>r. respuestaDe svc (dni cd) = Some r \<and> success (evaluarRespuesta_p1 r) \<and>
         calculateMaxAmount_p1 cd (evaluarRespuesta_p1 r) (validateBanco_p1 rnd cd) \<noteq> 0) \<and>
      success (validateBanco_p1 rnd cd)) \<and>
   (resultado (evaluateCliente svc rnd cd) = Pendiente \<longrightarrow>
      requiereRevision (bcra (detalles (evaluateCliente svc rnd cd)))) \<and>
   (resultado (evaluateCliente_p1 svc rnd cd) = Pendiente \<longrightarrow>
      requiereRevision (bcra (detalles (evaluateCliente_p1 svc rnd cd)))) \<and>
   (respuestaDe svc (dni cd) = None \<longleftrightarrow>
      (\<exists>e. cuitDe svc (dni cd) = Inl e) \<or>
      (\<exists>c e. cuitDe svc (dni cd) = Inr c \<and> svc_consultarDeudas svc c = Inl e \<and>
         e \<noteq> ''TOKEN_NOT_CONFIGURED''))"
proof -
  have t: "\<And>x. x \<in> {Aprobado, Rechazado, Pendiente}"
  proof -
    fix x show "x \<in> {Aprobado, Rechazado, Pendiente}" by (cases x) simp_all
  qed
  from t [of "resultado (evaluateCliente svc rnd cd)"]
    t [of "resultado (evaluateCliente_p1 svc rnd cd)"]
    evaluateCliente_pendiente [of svc rnd cd] evaluateCliente_p1_pendiente [of svc rnd cd]
    evaluateCliente_aprobado [of svc rnd cd] evaluateCliente_p1_aprobado_iff [of svc rnd cd]
    evaluateCliente_pendiente_revision [of svc rnd cd]
    evaluateCliente_p1_pendiente_revision [of svc rnd cd] respuestaDe_none_iff [of svc "dni cd"]
  show ?thesis by blast
qed

text \<open>Claim C3, witness: the status 503 on every attempt.\<close>

theorem evaluateCliente_outcomes_amended_witness:
  "resultado (evaluateCliente (BCRAService_b conToken red503 ''t'') (1 / 2)
     (cliente ''30111222'' 900000 Publico ''nacion'' None)) = Pendiente \<and>
   resultado (evaluateCliente_p1 (BCRAService_b conToken red503 ''t'') (1 / 2)
     (cliente ''30111222'' 900000 Publico ''nacion'' None)) = Pendiente"
proof -
  let ?svc = "BCRAService_b conToken red503 ''t''"
  let ?cd = "cliente ''30111222'' 900000 Publico ''nacion'' None"
  have a: "\<not> sueldoNeto ?cd < 500000 \<and> success (validateProtecap (dni ?cd))"
    by code_simp
  have b: "cuitDe ?svc (dni ?cd) = Inr ''20301112220'' \<and>
           svc_consultarDeudas ?svc ''20301112220'' = Inl ''HTTP_ERROR_503'' \<and>
           ''HTTP_ERROR_503'' \<noteq> ''TOKEN_NOT_CONFIGURED''"
    by code_simp
  from a b evaluateCliente_outcomes_amended [of ?svc "1 / 2" ?cd] show ?thesis by blast
qed


section \<open>An amount of zero\<close>

text \<open>
  The copy in \<^verbatim>\<open>src/unnamed/part_001\<close> rejects an amount of 0 with the fixed message,
  so what it approves carries a positive amount.
\<close>

lemma evaluateCliente_p1_zero:
  "success (validateProtecap (dni cd)) \<Longrightarrow> success (validateBCRA_p1 svc (dni cd)) \<Longrightarrow>
   success (validateBanco_p1 rnd cd) \<Longrightarrow>
   calculateMaxAmount_p1 cd (validateBCRA_p1 svc (dni cd)) (validateBanco_p1 rnd cd) = 0 \<Longrightarrow>
   resultado (evaluateCliente_p1 svc rnd cd) = Rechazado \<and>
   motivoRechazo (evaluateCliente_p1 svc rnd cd) = Some noCalifica"
  by (simp add: evaluateCliente_p1_def Let_def)

lemma evaluateCliente_p1_aprobado:
  "resultado (evaluateCliente_p1 svc rnd cd) = Aprobado \<Longrightarrow>
   \<exists>m. montoMaximo (evaluateCliente_p1 svc rnd cd) = Some m \<and> 0 < m"
proof -
  assume a: "resultado (evaluateCliente_p1 svc rnd cd) = Aprobado"
  let ?m = "calculateMaxAmount_p1 cd (validateBCRA_p1 svc (dni cd)) (validateBanco_p1 rnd cd)"
  have nn: "0 \<le> ?m" using calc_p1_bounds by blast
  from a have "montoMaximo (evaluateCliente_p1 svc rnd cd) = Some ?m \<and> ?m \<noteq> 0"
    by (auto simp add: evaluateCliente_p1_def Let_def resultado_rechazo split: if_splits)
  with nn show ?thesis by auto
qed

text \<open>
  Claim C1, on \<^verbatim>\<open>src/lib/validation-service.ts\<close>: an applicant with a net income of
  exactly 500,000, public employment, the bank "nacion" and a favourable bureau reply
  passes the four stages; the amount is 0, since the brackets start above 500,000 while
  the income stage refuses only what is below 500,000; and the outcome is
  \<^verbatim>\<open>aprobado\<close> with \<^verbatim>\<open>montoMaximo\<close> 0. The other copy rejects an amount of 0 with the
  fixed message.
\<close>

theorem evaluateCliente_aprobado_cero:
  "success (validateSueldoMinimo 500000) \<and> success (validateProtecap ''30111222'') \<and>
   success (validateBCRA (BCRAService_a (tiradas [1 / 2]) red503 ''t'') ''30111222'') \<and>
   success (validateBanco (1 / 2) (cliente ''30111222'' 500000 Publico ''nacion'' None)) \<and>
   calculateMaxAmount (cliente ''30111222'' 500000 Publico ''nacion'' None)
     (validateBCRA (BCRAService_a (tiradas [1 / 2]) red503 ''t'') ''30111222'')
     (validateBanco (1 / 2) (cliente ''30111222'' 500000 Publico ''nacion'' None)) = 0 \<and>
   resultado (evaluateCliente (BCRAService_a (tiradas [1 / 2]) red503 ''t'') (1 / 2)
     (cliente ''30111222'' 500000 Publico ''nacion'' None)) = Aprobado \<and>
   montoMaximo (evaluateCliente (BCRAService_a (tiradas [1 / 2]) red503 ''t'') (1 / 2)
     (cliente ''30111222'' 500000 Publico ''nacion'' None)) = Some 0 \<and>
   resultado (evaluateCliente (BCRAService_b conToken (redCon [deuda ''A'' 1 0]) ''t'') (1 / 2)
     (cliente ''30111222'' 500000 Publico ''nacion'' None)) = Aprobado \<and>
   montoMaximo (evaluateCliente (BCRAService_b conToken (redCon [deuda ''A'' 1 0]) ''t'') (1 / 2)
     (cliente ''30111222'' 500000 Publico ''nacion'' None)) = Some 0 \<and>
   resultado (evaluateCliente_p1 (BCRAService_a (tiradas [1 / 2]) red503 ''t'') (1 / 2)
     (cliente ''30111222'' 400000 Publico ''nacion'' None)) = Rechazado \<and>
   motivoRechazo (evaluateCliente_p1 (BCRAService_a (tiradas [1 / 2]) red503 ''t'') (1 / 2)
     (cliente ''30111222'' 400000 Publico ''nacion'' None)) = Some noCalifica"
  by (intro conjI; code_simp)

section \<open>A debt of tier 5\<close>

lemma evaluarRespuesta_sit5:
  "num_gt (situacion5 (resumen r)) (Num 0) \<Longrightarrow>
   vr_situacion5 (evaluarRespuesta r) = Some True"
  by (simp add: evaluarRespuesta_def Let_def)

lemma success_evaluarRespuesta:
  "success (evaluarRespuesta r) \<longleftrightarrow> \<not> num_ge (porcentajeProblematicas r) (Num 40)"
  by (simp add: evaluarRespuesta_def Let_def)

lemma calc_sit5:
  "vr_situacion5 bcraResult = Some True \<Longrightarrow> calculateMaxAmount cd bcraResult bancoResult = 100000"
  by (simp add: calculateMaxAmount_def)

lemma evaluateCliente_con_respuesta:
  assumes "respuestaDe svc (dni cd) = Some r" and "\<not> sueldoNeto cd < 500000"
    and "success (validateProtecap (dni cd))"
  shows "resultado (evaluateCliente svc rnd cd) =
           (if success (evaluarRespuesta r) \<and> success (validateBanco rnd cd) then Aprobado
            else Rechazado)"
    and "resultado (evaluateCliente svc rnd cd) = Aprobado \<longrightarrow>
           montoMaximo (evaluateCliente svc rnd cd) =
             Some (calculateMaxAmount cd (evaluarRespuesta r) (validateBanco rnd cd))"
  using validateBCRA_some [OF assms(1)] assms(2,3) evaluarRespuesta_no_revision [of r]
  by (simp_all add: evaluateCliente_def Let_def resultado_rechazo success_validateSueldoMinimo)

lemma evaluarRespuesta_p1_inhabilitado:
  "inhabilitado r \<Longrightarrow> \<not> success (evaluarRespuesta_p1 r)"
  by (simp add: evaluarRespuesta_p1_def success_result)

lemma evaluateCliente_p1_inhabilitado:
  assumes "respuestaDe svc (dni cd) = Some r" and "success (validateProtecap (dni cd))"
    and "inhabilitado r"
  shows "resultado (evaluateCliente_p1 svc rnd cd) = Rechazado"
  using validateBCRA_some [OF assms(1)] assms(2) evaluarRespuesta_p1_no_revision [of r]
    evaluarRespuesta_p1_inhabilitado [OF assms(3)]
  by (simp add: evaluateCliente_p1_def Let_def resultado_rechazo)

text \<open>
  Claim C2, counterexample. In \<^verbatim>\<open>src/lib/validation-service.ts\<close>, a live reply with
  one debt of tier 5 among three is disqualified, yet the bureau stage passes (33.3
  per cent is below 40) and the applicant is approved with the amount 100,000.
\<close>

theorem evaluarRespuesta_situacion5_counterexample:
  "svc_consultarDeudas
     (BCRAService_b conToken (redCon [deuda ''A'' 5 1000, deuda ''B'' 1 0, deuda ''C'' 1 0]) ''t'')
     ''20301112220'' =
     Inr (processResponse
       \<lparr>api_deudas = Some [deuda ''A'' 5 1000, deuda ''B'' 1 0, deuda ''C'' 1 0],
        api_observaciones = None\<rparr> ''20301112220'' ''t'') \<and>
   situacion5 (resumen (processResponse
       \<lparr>api_deudas = Some [deuda ''A'' 5 1000, deuda ''B'' 1 0, deuda ''C'' 1 0],
        api_observaciones = None\<rparr> ''20301112220'' ''t'')) = Num 1 \<and>
   inhabilitado (processResponse
       \<lparr>api_deudas = Some [deuda ''A'' 5 1000, deuda ''B'' 1 0, deuda ''C'' 1 0],
        api_observaciones = None\<rparr> ''20301112220'' ''t'') \<and>
   success (validateBCRA
     (BCRAService_b conToken (redCon [deuda ''A'' 5 1000, deuda ''B'' 1 0, deuda ''C'' 1 0]) ''t'')
     ''30111222'') \<and>
   resultado (evaluateCliente
     (BCRAService_b conToken (redCon [deuda ''A'' 5 1000, deuda ''B'' 1 0, deuda ''C'' 1 0]) ''t'')
     (1 / 2) (cliente ''30111222'' 900000 Publico ''nacion'' None)) = Aprobado \<and>
   montoMaximo (evaluateCliente
     (BCRAService_b conToken (redCon [deuda ''A'' 5 1000, deuda ''B'' 1 0, deuda ''C'' 1 0]) ''t'')
     (1 / 2) (cliente ''30111222'' 900000 Publico ''nacion'' None)) = Some 100000"
  by (intro conjI; code_simp)

text \<open>
  Claim C2, as amended. In \<^verbatim>\<open>src/lib/validation-service.ts\<close>, a reply whose tier-5
  count is positive is flagged (\<^verbatim>\<open>situacion5 = true\<close>) and never asks for a manual
  review, but the bureau stage fails only when the problematic percentage is 40 or more;
  otherwise the stage passes, the amount is the fixed 100,000, and the evaluation is
  approved with 100,000 if the bank stage passes. In the copy in
  \<^verbatim>\<open>src/unnamed/part_001\<close>, a reply whose flag \<^verbatim>\<open>inhabilitado\<close> is set fails the
  bureau stage without a manual review, and the evaluation is rejected.
\<close>

theorem evaluarRespuesta_situacion5_amended:
  "num_gt (situacion5 (resumen r)) (Num 0) \<Longrightarrow>
     vr_situacion5 (evaluarRespuesta r) = Some True \<and>
     \<not> requiereRevision (evaluarRespuesta r) \<and>
     (success (evaluarRespuesta r) \<longleftrightarrow> \<not> num_ge (porcentajeProblematicas r) (Num 40)) \<and>
     calculateMaxAmount cd (evaluarRespuesta r) bancoResult = 100000 \<and>
     (respuestaDe svc (dni cd) = Some r \<and> \<not> sueldoNeto cd < 500000 \<and>
      success (validateProtecap (dni cd)) \<longrightarrow>
        (resultado (evaluateCliente svc rnd cd) = Rechazado \<longleftrightarrow>
           num_ge (porcentajeProblematicas r) (Num 40) \<or> \<not> success (validateBanco rnd cd)) \<and>
        (resultado (evaluateCliente svc rnd cd) = Aprobado \<longleftrightarrow>
           \<not> num_ge (porcentajeProblematicas r) (Num 40) \<and> success (validateBanco rnd cd)) \<and>
        (resultado (evaluateCliente svc rnd cd) = Aprobado \<longrightarrow>
           montoMaximo (evaluateCliente svc rnd cd) = Some 100000)) \<and>
     (inhabilitado r \<longrightarrow>
        \<not> success (evaluarRespuesta_p1 r) \<and> \<not> requiereRevision (evaluarRespuesta_p1 r) \<and>
        (respuestaDe svc (dni cd) = Some r \<and> success (validateProtecap (dni cd)) \<longrightarrow>
           resultado (evaluateCliente_p1 svc rnd cd) = Rechazado))"
proof -
  assume a: "num_gt (situacion5 (resumen r)) (Num 0)"
  note s = evaluarRespuesta_sit5 [OF a]
  have c: "\<And>k. calculateMaxAmount cd (evaluarRespuesta r) k = 100000"
    using s by (rule calc_sit5)
  have e: "respuestaDe svc (dni cd) = Some r \<and> \<not> sueldoNeto cd < 500000 \<and>
      success (validateProtecap (dni cd)) \<longrightarrow>
        (resultado (evaluateCliente svc rnd cd) = Rechazado \<longleftrightarrow>
           num_ge (porcentajeProblematicas r) (Num 40) \<or> \<not> success (validateBanco rnd cd)) \<and>
        (resultado (evaluateCliente svc rnd cd) = Aprobado \<longleftrightarrow>
           \<not> num_ge (porcentajeProblematicas r) (Num 40) \<and> success (validateBanco rnd cd)) \<and>
        (resultado (evaluateCliente svc rnd cd) = Aprobado \<longrightarrow>
           montoMaximo (evaluateCliente svc rnd cd) = Some 100000)"
  proof (intro impI)
    assume h: "respuestaDe svc (dni cd) = Some r \<and> \<not> sueldoNeto cd < 500000 \<and>
      success (validateProtecap (dni cd))"
    then have h1: "respuestaDe svc (dni cd) = Some r" and h2: "\<not> sueldoNeto cd < 500000"
      and h3: "success (validateProtecap (dni cd))" by blast+
    note ec = evaluateCliente_con_respuesta [OF h1 h2 h3, of rnd]
    from ec c [of "validateBanco rnd cd"] success_evaluarRespuesta [of r]
    show "(resultado (evaluateCliente svc rnd cd) = Rechazado \<longleftrightarrow>
           num_ge (porcentajeProblematicas r) (Num 40) \<or> \<not> success (validateBanco rnd cd)) \<and>
        (resultado (evaluateCliente svc rnd cd) = Aprobado \<longleftrightarrow>
           \<not> num_ge (porcentajeProblematicas r) (Num 40) \<and> success (validateBanco rnd cd)) \<and>
        (resultado (evaluateCliente svc rnd cd) = Aprobado \<longrightarrow>
           montoMaximo (evaluateCliente svc rnd cd) = Some 100000)"
      by (auto split: if_splits)
  qed
  from s c [of bancoResult] e evaluarRespuesta_no_revision [of r] success_evaluarRespuesta [of r]
    evaluarRespuesta_p1_no_revision [of r] evaluarRespuesta_p1_inhabilitado [of r]
    evaluateCliente_p1_inhabilitado [of svc cd r rnd]
  show ?thesis by blast
qed

text \<open>Claim C2, witness: the live reply with one debt of tier 5 among three.\<close>

theorem evaluarRespuesta_situacion5_amended_witness:
  "num_gt (situacion5 (resumen (processResponse
       \<lparr>api_deudas = Some [deuda ''A'' 5 1000, deuda ''B'' 1 0, deuda ''C'' 1 0],
        api_observaciones = None\<rparr> ''20301112220'' ''t''))) (Num 0) \<and>
   success (evaluarRespuesta (processResponse
       \<lparr>api_deudas = Some [deuda ''A'' 5 1000, deuda ''B'' 1 0, deuda ''C'' 1 0],
        api_observaciones = None\<rparr> ''20301112220'' ''t'')) \<and>
   calculateMaxAmount (cliente ''30111222'' 900000 Publico ''nacion'' None)
     (evaluarRespuesta (processResponse
       \<lparr>api_deudas = Some [deuda ''A'' 5 1000, deuda ''B'' 1 0, deuda ''C'' 1 0],
        api_observaciones = None\<rparr> ''20301112220'' ''t''))
     (validateBanco (1 / 2) (cliente ''30111222'' 900000 Publico ''nacion'' None)) = 100000 \<and>
   \<not> success (evaluarRespuesta_p1 (processResponse
       \<lparr>api_deudas = Some [deuda ''A'' 5 1000, deuda ''B'' 1 0, deuda ''C'' 1 0],
        api_observaciones = None\<rparr> ''20301112220'' ''t''))"
proof -
  define r where "r = processResponse
       \<lparr>api_deudas = Some [deuda ''A'' 5 1000, deuda ''B'' 1 0, deuda ''C'' 1 0],
        api_observaciones = None\<rparr> ''20301112220'' ''t''"
  define cd where "cd = cliente ''30111222'' 900000 Publico ''nacion'' None"
  have a: "num_gt (situacion5 (resumen r)) (Num 0)" unfolding r_def by code_simp
  have p: "\<not> num_ge (porcentajeProblematicas r) (Num 40)" unfolding r_def by code_simp
  have i: "inhabilitado r" unfolding r_def by code_simp
  from a p i
    evaluarRespuesta_situacion5_amended [OF a, of cd "validateBanco (1 / 2) cd"]
  show ?thesis unfolding r_def cd_def by blast
qed


end
